theory Spec2Isabelle
  imports Complex_Main
begin

section \<open>Decoded JSON values\<close>

text \<open>
  The parser works on the values that Go's \<^verbatim>\<open>encoding/json\<close> produces when it decodes
  into \<^verbatim>\<open>any\<close>: \<^verbatim>\<open>nil\<close>, \<^verbatim>\<open>bool\<close>, \<^verbatim>\<open>float64\<close>, \<^verbatim>\<open>string\<close>, \<^verbatim>\<open>[]any\<close> and
  \<^verbatim>\<open>map[string]any\<close>. A Go map is modelled by an association list that is read with
  \<open>map_of\<close>; the \<^verbatim>\<open>nil\<close> interface value is \<open>JNull\<close>. Numbers are never inspected by
  the parser and are carried as rationals.
\<close>

datatype json =
    JNull
  | JBool bool
  | JNum rat
  | JStr string
  | JArr "json list"
  | JObj "(string \<times> json) list"

type_synonym jmap = "(string \<times> json) list"

text \<open>\<^verbatim>\<open>v, ok := data[k].(string)\<close> and its siblings: a missing key reads as \<^verbatim>\<open>nil\<close>, on
  which every type assertion fails.\<close>

definition get_string :: "jmap \<Rightarrow> string \<Rightarrow> string option" where
  "get_string data k = (case map_of data k of Some (JStr s) \<Rightarrow> Some s | _ \<Rightarrow> None)"

definition get_object :: "jmap \<Rightarrow> string \<Rightarrow> jmap option" where
  "get_object data k = (case map_of data k of Some (JObj m) \<Rightarrow> Some m | _ \<Rightarrow> None)"

definition get_array :: "jmap \<Rightarrow> string \<Rightarrow> json list option" where
  "get_array data k = (case map_of data k of Some (JArr xs) \<Rightarrow> Some xs | _ \<Rightarrow> None)"

definition get_bool :: "jmap \<Rightarrow> string \<Rightarrow> bool option" where
  "get_bool data k = (case map_of data k of Some (JBool b) \<Rightarrow> Some b | _ \<Rightarrow> None)"

section \<open>Errors\<close>

text \<open>The static error values of the parser, and one constructor for each
  \<^verbatim>\<open>fmt.Errorf\<close> wrapper. \<open>ErrPanic\<close> stands for the run-time panic of an unchecked
  type assertion.\<close>

datatype json_error = SyntaxError | UnmarshalTypeError

datatype error =
    ErrMissingTypeField
  | ErrControlMissingScope
  | ErrGroupMissingLabel
  | ErrCategorizationMissingElements
  | ErrElementNotObject
  | ErrCategoryMissingLabel
  | ErrLabelMissingText
  | ErrMissingElements
  | ErrRuleMissingEffect
  | ErrRuleMissingCondition
  | ErrUnknownConditionType string
  | ErrSchemaConditionMissingScope
  | ErrSchemaConditionMissingSchema
  | ErrLeafConditionMissingScope
  | ErrLeafConditionMissingValue
  | ErrAndConditionMissingConditions
  | ErrOrConditionMissingConditions
  | ElementAt nat error
  | ConditionAt nat error
  | FailedToParseRule error
  | FailedToParseCondition error
  | FailedToParseUISchema error
  | FailedToParseDataSchema json_error
  | InvalidJSON json_error
  | ErrPanic

section \<open>The typed tree\<close>

text \<open>The four condition structs, with their fields in the order of the source:
  \<^verbatim>\<open>Type\<close>, \<^verbatim>\<open>Scope\<close>, \<^verbatim>\<open>Schema\<close>, \<^verbatim>\<open>FailWhenUndefined\<close> for the schema-based one,
  \<^verbatim>\<open>Type\<close>, \<^verbatim>\<open>Scope\<close>, \<^verbatim>\<open>ExpectedValue\<close> for the leaf, and \<^verbatim>\<open>Type\<close>, \<^verbatim>\<open>Conditions\<close>
  for the other two. A pointer field that may be \<^verbatim>\<open>nil\<close> is an \<open>option\<close>.\<close>

datatype condition =
    SchemaBasedCondition string string json "bool option"
  | LeafCondition string string json
  | AndCondition string "condition list"
  | OrCondition string "condition list"

record rule =
  Effect :: string
  Condition :: condition

record base_element =
  Type :: string
  Rule :: "rule option"
  Options :: "jmap option"
  I18n :: "string option"

text \<open>The eight node structs. Each embeds a \<^verbatim>\<open>BaseUISchemaElement\<close>, the first
  argument here; then come \<^verbatim>\<open>Scope\<close> and \<^verbatim>\<open>Label\<close> of a Control, \<^verbatim>\<open>Label\<close> and
  \<^verbatim>\<open>Elements\<close> of a Group, a Categorization and a Category, \<^verbatim>\<open>Text\<close> of a Label, and
  \<^verbatim>\<open>RawData\<close> and \<^verbatim>\<open>Elements\<close> of a CustomElement. The \<^verbatim>\<open>Label\<close> of a Control is an
  \<^verbatim>\<open>any\<close> and is \<^verbatim>\<open>nil\<close> when it was not set. The elements of a Categorization have
  the interface type \<^verbatim>\<open>CategoryElement\<close> in the source; see \<open>isCategoryElement\<close>
  below.\<close>

datatype element =
    Control base_element string json
  | VerticalLayout base_element "element list"
  | HorizontalLayout base_element "element list"
  | Group base_element string "element list"
  | Categorization base_element "string option" "element list"
  | Category base_element string "element list"
  | Label base_element string
  | CustomElement base_element jmap "element list"

text \<open>The \<^verbatim>\<open>Schema\<close> of an \<^verbatim>\<open>AST\<close> is an \<^verbatim>\<open>any\<close>: \<^verbatim>\<open>nil\<close>, that is \<open>JNull\<close>, when no
  data schema was decoded.\<close>

record ast =
  UISchema :: element
  Schema :: json

section \<open>Rule and condition parser\<close>

definition parseSchemaBasedCondition :: "jmap \<Rightarrow> error + condition" where
  "parseSchemaBasedCondition data =
     (case get_string data ''scope'' of
        None \<Rightarrow> Inl ErrSchemaConditionMissingScope
      | Some scope \<Rightarrow>
          (case map_of data ''schema'' of
             None \<Rightarrow> Inl ErrSchemaConditionMissingSchema
           | Some schema \<Rightarrow>
               Inr (SchemaBasedCondition
                      (case get_string data ''type'' of Some condType \<Rightarrow> condType | None \<Rightarrow> [])
                      scope schema (get_bool data ''failWhenUndefined''))))"

definition parseLeafCondition :: "jmap \<Rightarrow> error + condition" where
  "parseLeafCondition data =
     (case get_string data ''scope'' of
        None \<Rightarrow> Inl ErrLeafConditionMissingScope
      | Some scope \<Rightarrow>
          (case map_of data ''expectedValue'' of
             None \<Rightarrow> Inl ErrLeafConditionMissingValue
           | Some expectedValue \<Rightarrow> Inr (LeafCondition ''LEAF'' scope expectedValue)))"

text \<open>\<open>parseCondition\<close> with the two loops of \<open>parseAndCondition\<close> and
  \<open>parseOrCondition\<close>: the loop functions take the index \<open>i\<close>, the entries still to
  read and the slice \<open>conditions\<close> built so far. The recursion ends because an entry
  of an object or of an array is smaller than the whole.\<close>

function parseCondition :: "jmap \<Rightarrow> error + condition"
  and parseAndCondition :: "jmap \<Rightarrow> error + condition"
  and parseAndCondition_loop :: "nat \<Rightarrow> json list \<Rightarrow> condition list \<Rightarrow> error + condition"
  and parseOrCondition :: "jmap \<Rightarrow> error + condition"
  and parseOrCondition_loop :: "nat \<Rightarrow> json list \<Rightarrow> condition list \<Rightarrow> error + condition"
where
  "parseCondition data =
     (let conditionType = (case get_string data ''type'' of Some t \<Rightarrow> t | None \<Rightarrow> [])
      in if conditionType = ''LEAF'' then parseLeafCondition data
         else if conditionType = ''AND'' then parseAndCondition data
         else if conditionType = ''OR'' then parseOrCondition data
         else if conditionType = ''SCHEMA_BASED'' \<or> conditionType = [] then
           parseSchemaBasedCondition data
         else Inl (ErrUnknownConditionType conditionType))"
| "parseAndCondition data =
     (case get_array data ''conditions'' of
        None \<Rightarrow> Inl ErrAndConditionMissingConditions
      | Some conditionsData \<Rightarrow> parseAndCondition_loop 0 conditionsData [])"
| "parseAndCondition_loop i [] conditions = Inr (AndCondition ''AND'' conditions)"
| "parseAndCondition_loop i (condData # rest) conditions =
     (case condData of
        JObj condMap \<Rightarrow>
          (case parseCondition condMap of
             Inl err \<Rightarrow> Inl (ConditionAt i err)
           | Inr cond \<Rightarrow> parseAndCondition_loop (Suc i) rest (conditions @ [cond]))
      | _ \<Rightarrow> Inl (ConditionAt i ErrElementNotObject))"
| "parseOrCondition data =
     (case get_array data ''conditions'' of
        None \<Rightarrow> Inl ErrOrConditionMissingConditions
      | Some conditionsData \<Rightarrow> parseOrCondition_loop 0 conditionsData [])"
| "parseOrCondition_loop i [] conditions = Inr (OrCondition ''OR'' conditions)"
| "parseOrCondition_loop i (condData # rest) conditions =
     (case condData of
        JObj condMap \<Rightarrow>
          (case parseCondition condMap of
             Inl err \<Rightarrow> Inl (ConditionAt i err)
           | Inr cond \<Rightarrow> parseOrCondition_loop (Suc i) rest (conditions @ [cond]))
      | _ \<Rightarrow> Inl (ConditionAt i ErrElementNotObject))"
  by pat_completeness auto
termination
proof -
  have size_map_of: "size v < size (JObj m)" if "map_of m k = Some v" for m k and v :: json
    using that by (induction m) (auto split: if_splits)
  have size_get_array: "size (JArr xs) < size (JObj m)" if "get_array m k = Some xs" for m k xs
    using that
    by (auto simp: get_array_def dest: size_map_of split: option.splits json.splits)
  show ?thesis
    by (relation "measure (\<lambda>x. case x of
          Inl (Inl data) \<Rightarrow> 3 * size (JObj data) + 2
        | Inl (Inr data) \<Rightarrow> 3 * size (JObj data) + 1
        | Inr (Inl (i, xs, acc)) \<Rightarrow> 3 * size (JArr xs)
        | Inr (Inr (Inl data)) \<Rightarrow> 3 * size (JObj data) + 1
        | Inr (Inr (Inr (i, xs, acc))) \<Rightarrow> 3 * size (JArr xs))")
       (auto dest: size_get_array)
qed

declare parseCondition.simps [simp del] parseAndCondition.simps [simp del]
  parseOrCondition.simps [simp del]

definition parseRule :: "jmap \<Rightarrow> error + rule" where
  "parseRule data =
     (case get_string data ''effect'' of
        None \<Rightarrow> Inl ErrRuleMissingEffect
      | Some effect \<Rightarrow>
          (case get_object data ''condition'' of
             None \<Rightarrow> Inl ErrRuleMissingCondition
           | Some conditionData \<Rightarrow>
               (case parseCondition conditionData of
                  Inl err \<Rightarrow> Inl (FailedToParseCondition err)
                | Inr condition \<Rightarrow> Inr \<lparr>Effect = effect, Condition = condition\<rparr>)))"

section \<open>Node classifier and per-type constructors\<close>

definition parseBaseElement :: "jmap \<Rightarrow> error + base_element" where
  "parseBaseElement data =
     (case get_string data ''type'' of
        None \<Rightarrow> Inl ErrPanic
      | Some t \<Rightarrow>
          (case get_object data ''rule'' of
             Some ruleData \<Rightarrow>
               (case parseRule ruleData of
                  Inl err \<Rightarrow> Inl (FailedToParseRule err)
                | Inr rule \<Rightarrow>
                    Inr \<lparr>Type = t, Rule = Some rule,
                         Options = get_object data ''options'',
                         I18n = get_string data ''i18n''\<rparr>)
           | None \<Rightarrow>
               Inr \<lparr>Type = t, Rule = None,
                    Options = get_object data ''options'',
                    I18n = get_string data ''i18n''\<rparr>))"

definition parseControl :: "jmap \<Rightarrow> base_element \<Rightarrow> error + element" where
  "parseControl data base =
     (case get_string data ''scope'' of
        None \<Rightarrow> Inl ErrControlMissingScope
      | Some scope \<Rightarrow>
          Inr (Control base scope
                 (case map_of data ''label'' of Some label \<Rightarrow> label | None \<Rightarrow> JNull)))"

definition parseLabel :: "jmap \<Rightarrow> base_element \<Rightarrow> error + element" where
  "parseLabel data base =
     (case get_string data ''text'' of
        None \<Rightarrow> Inl ErrLabelMissingText
      | Some text \<Rightarrow> Inr (Label base text))"

text \<open>\<^verbatim>\<open>elem.(CategoryElement)\<close>: only \<^verbatim>\<open>*Category\<close> and \<^verbatim>\<open>*Categorization\<close> have the
  marker method \<^verbatim>\<open>IsCategoryElement\<close>.\<close>

fun isCategoryElement :: "element \<Rightarrow> bool" where
  "isCategoryElement (Category b l es) = True"
| "isCategoryElement (Categorization b l es) = True"
| "isCategoryElement e = False"

function parseUISchemaElement :: "jmap \<Rightarrow> error + element"
  and parseVerticalLayout :: "jmap \<Rightarrow> base_element \<Rightarrow> error + element"
  and parseHorizontalLayout :: "jmap \<Rightarrow> base_element \<Rightarrow> error + element"
  and parseGroup :: "jmap \<Rightarrow> base_element \<Rightarrow> error + element"
  and parseCategorization :: "jmap \<Rightarrow> base_element \<Rightarrow> error + element"
  and parseCategorization_loop ::
        "nat \<Rightarrow> json list \<Rightarrow> element list \<Rightarrow> error + element list"
  and parseCategory :: "jmap \<Rightarrow> base_element \<Rightarrow> error + element"
  and parseCustomElement :: "jmap \<Rightarrow> base_element \<Rightarrow> element"
  and parseElementsArray :: "jmap \<Rightarrow> error + element list"
  and parseElementsArray_loop ::
        "nat \<Rightarrow> json list \<Rightarrow> element list \<Rightarrow> error + element list"
where
  "parseUISchemaElement data =
     (case get_string data ''type'' of
        None \<Rightarrow> Inl ErrMissingTypeField
      | Some elementType \<Rightarrow>
          (case parseBaseElement data of
             Inl err \<Rightarrow> Inl err
           | Inr base \<Rightarrow>
               if elementType = ''Control'' then parseControl data base
               else if elementType = ''VerticalLayout'' then parseVerticalLayout data base
               else if elementType = ''HorizontalLayout'' then parseHorizontalLayout data base
               else if elementType = ''Group'' then parseGroup data base
               else if elementType = ''Categorization'' then parseCategorization data base
               else if elementType = ''Category'' then parseCategory data base
               else if elementType = ''Label'' then parseLabel data base
               else Inr (parseCustomElement data base)))"
| "parseVerticalLayout data base =
     (case parseElementsArray data of
        Inl err \<Rightarrow> Inl err
      | Inr elements \<Rightarrow> Inr (VerticalLayout base elements))"
| "parseHorizontalLayout data base =
     (case parseElementsArray data of
        Inl err \<Rightarrow> Inl err
      | Inr elements \<Rightarrow> Inr (HorizontalLayout base elements))"
| "parseGroup data base =
     (case get_string data ''label'' of
        None \<Rightarrow> Inl ErrGroupMissingLabel
      | Some label \<Rightarrow>
          (case parseElementsArray data of
             Inl err \<Rightarrow> Inl err
           | Inr elements \<Rightarrow> Inr (Group base label elements)))"
| "parseCategorization data base =
     (case get_array data ''elements'' of
        None \<Rightarrow> Inl ErrCategorizationMissingElements
      | Some elementsData \<Rightarrow>
          (case parseCategorization_loop 0 elementsData [] of
             Inl err \<Rightarrow> Inl err
           | Inr elements \<Rightarrow>
               Inr (Categorization base (get_string data ''label'') elements)))"
| "parseCategorization_loop i [] elements = Inr elements"
| "parseCategorization_loop i (elemData # rest) elements =
     (case elemData of
        JObj elemMap \<Rightarrow>
          (case parseUISchemaElement elemMap of
             Inl err \<Rightarrow> Inl (ElementAt i err)
           | Inr elem \<Rightarrow>
               if isCategoryElement elem
               then parseCategorization_loop (Suc i) rest (elements @ [elem])
               else parseCategorization_loop (Suc i) rest elements)
      | _ \<Rightarrow> Inl (ElementAt i ErrElementNotObject))"
| "parseCategory data base =
     (case get_string data ''label'' of
        None \<Rightarrow> Inl ErrCategoryMissingLabel
      | Some label \<Rightarrow>
          (case parseElementsArray data of
             Inl err \<Rightarrow> Inl err
           | Inr elements \<Rightarrow> Inr (Category base label elements)))"
| "parseCustomElement data base =
     CustomElement base data
       (if map_of data ''elements'' \<noteq> None
        then (case parseElementsArray data of Inr elements \<Rightarrow> elements | Inl err \<Rightarrow> [])
        else [])"
| "parseElementsArray data =
     (case get_array data ''elements'' of
        None \<Rightarrow> Inl ErrMissingElements
      | Some elementsData \<Rightarrow> parseElementsArray_loop 0 elementsData [])"
| "parseElementsArray_loop i [] elements = Inr elements"
| "parseElementsArray_loop i (elemData # rest) elements =
     (case elemData of
        JObj elemMap \<Rightarrow>
          (case parseUISchemaElement elemMap of
             Inl err \<Rightarrow> Inl (ElementAt i err)
           | Inr elem \<Rightarrow> parseElementsArray_loop (Suc i) rest (elements @ [elem]))
      | _ \<Rightarrow> Inl (ElementAt i ErrElementNotObject))"
  by pat_completeness auto
termination
proof -
  have size_map_of: "size v < size (JObj m)" if "map_of m k = Some v" for m k and v :: json
    using that by (induction m) (auto split: if_splits)
  have size_get_array: "size (JArr xs) < size (JObj m)" if "get_array m k = Some xs" for m k xs
    using that
    by (auto simp: get_array_def dest: size_map_of split: option.splits json.splits)
  show ?thesis
    by (relation "measure (\<lambda>x. case x of
          Inl (Inl (Inl data)) \<Rightarrow> 4 * size (JObj data) + 3
        | Inl (Inl (Inr (data, base))) \<Rightarrow> 4 * size (JObj data) + 2
        | Inl (Inr (Inl (data, base))) \<Rightarrow> 4 * size (JObj data) + 2
        | Inl (Inr (Inr (Inl (data, base)))) \<Rightarrow> 4 * size (JObj data) + 2
        | Inl (Inr (Inr (Inr (data, base)))) \<Rightarrow> 4 * size (JObj data) + 2
        | Inr (Inl (Inl (i, xs, acc))) \<Rightarrow> 4 * size (JArr xs)
        | Inr (Inl (Inr (data, base))) \<Rightarrow> 4 * size (JObj data) + 2
        | Inr (Inr (Inl (data, base))) \<Rightarrow> 4 * size (JObj data) + 2
        | Inr (Inr (Inr (Inl data))) \<Rightarrow> 4 * size (JObj data) + 1
        | Inr (Inr (Inr (Inr (i, xs, acc)))) \<Rightarrow> 4 * size (JArr xs))")
       (auto dest: size_get_array)
qed

declare parseUISchemaElement.simps [simp del] parseVerticalLayout.simps [simp del]
  parseHorizontalLayout.simps [simp del] parseGroup.simps [simp del]
  parseCategorization.simps [simp del] parseCategory.simps [simp del]
  parseCustomElement.simps [simp del] parseElementsArray.simps [simp del]

section \<open>Top-level entry point\<close>

text \<open>
  Decoding JSON text is the work of \<^verbatim>\<open>encoding/json\<close>, outside this package.
  It is a parameter \<open>decode\<close> of the model: the value a text denotes, or \<open>None\<close> when
  the text is not valid JSON. What \<^verbatim>\<open>json.Unmarshal\<close> does with a valid value depends
  on the Go type of its target:
  \<^item> into \<^verbatim>\<open>any\<close> it stores the value (\<^verbatim>\<open>nil\<close> for JSON \<^verbatim>\<open>null\<close>);
  \<^item> into \<^verbatim>\<open>map[string]any\<close> it stores an object; JSON \<^verbatim>\<open>null\<close> sets the map to
    \<^verbatim>\<open>nil\<close> and is no error (a \<^verbatim>\<open>nil\<close> map reads as an empty one); every other
    value is an \<^verbatim>\<open>UnmarshalTypeError\<close>.
\<close>

type_synonym decoder = "string \<Rightarrow> json option"

definition unmarshal_any :: "decoder \<Rightarrow> string \<Rightarrow> json_error + json" where
  "unmarshal_any decode data =
     (case decode data of None \<Rightarrow> Inl SyntaxError | Some v \<Rightarrow> Inr v)"

definition unmarshal_map :: "decoder \<Rightarrow> string \<Rightarrow> json_error + jmap" where
  "unmarshal_map decode data =
     (case decode data of
        None \<Rightarrow> Inl SyntaxError
      | Some (JObj m) \<Rightarrow> Inr m
      | Some JNull \<Rightarrow> Inr []
      | Some _ \<Rightarrow> Inl UnmarshalTypeError)"

definition parseUISchema :: "decoder \<Rightarrow> string \<Rightarrow> error + element" where
  "parseUISchema decode data =
     (case unmarshal_map decode data of
        Inl err \<Rightarrow> Inl (InvalidJSON err)
      | Inr raw \<Rightarrow> parseUISchemaElement raw)"

definition Parse :: "decoder \<Rightarrow> string \<Rightarrow> string \<Rightarrow> error + ast" where
  "Parse decode uiSchemaJSON schemaJSON =
     (case parseUISchema decode uiSchemaJSON of
        Inl err \<Rightarrow> Inl (FailedToParseUISchema err)
      | Inr uiSchema \<Rightarrow>
          if length schemaJSON > 0 then
            (case unmarshal_any decode schemaJSON of
               Inl err \<Rightarrow> Inl (FailedToParseDataSchema err)
             | Inr schema \<Rightarrow> Inr \<lparr>UISchema = uiSchema, Schema = schema\<rparr>)
          else Inr \<lparr>UISchema = uiSchema, Schema = JNull\<rparr>)"

section \<open>Tree walker\<close>

text \<open>A visitor is an object with one method per variant; a method may change the
  visitor's own state and returns an error or \<^verbatim>\<open>nil\<close>. In the model a method takes
  the node and the state \<open>'s\<close> and returns the error, if any, with the new state.\<close>

record ('s, 'e) visitor =
  VisitControl :: "element \<Rightarrow> 's \<Rightarrow> 'e option \<times> 's"
  VisitVerticalLayout :: "element \<Rightarrow> 's \<Rightarrow> 'e option \<times> 's"
  VisitHorizontalLayout :: "element \<Rightarrow> 's \<Rightarrow> 'e option \<times> 's"
  VisitGroup :: "element \<Rightarrow> 's \<Rightarrow> 'e option \<times> 's"
  VisitCategorization :: "element \<Rightarrow> 's \<Rightarrow> 'e option \<times> 's"
  VisitCategory :: "element \<Rightarrow> 's \<Rightarrow> 'e option \<times> 's"
  VisitLabel :: "element \<Rightarrow> 's \<Rightarrow> 'e option \<times> 's"
  VisitCustomElement :: "element \<Rightarrow> 's \<Rightarrow> 'e option \<times> 's"

text \<open>\<open>Walk\<close> takes \<open>None\<close> for the \<^verbatim>\<open>nil\<close> element. \<open>Walk_children\<close> is the loop
  \<^verbatim>\<open>for _, child := range e.Elements\<close>, the same in every container case.\<close>

function Walk :: "element option \<Rightarrow> ('s, 'e) visitor \<Rightarrow> 's \<Rightarrow> 'e option \<times> 's"
  and Walk_children :: "element list \<Rightarrow> ('s, 'e) visitor \<Rightarrow> 's \<Rightarrow> 'e option \<times> 's"
where
  "Walk None visitor s = (None, s)"
| "Walk (Some (Control b scope label)) visitor s =
     VisitControl visitor (Control b scope label) s"
| "Walk (Some (VerticalLayout b es)) visitor s =
     (case VisitVerticalLayout visitor (VerticalLayout b es) s of
        (Some err, s') \<Rightarrow> (Some err, s')
      | (None, s') \<Rightarrow> Walk_children es visitor s')"
| "Walk (Some (HorizontalLayout b es)) visitor s =
     (case VisitHorizontalLayout visitor (HorizontalLayout b es) s of
        (Some err, s') \<Rightarrow> (Some err, s')
      | (None, s') \<Rightarrow> Walk_children es visitor s')"
| "Walk (Some (Group b label es)) visitor s =
     (case VisitGroup visitor (Group b label es) s of
        (Some err, s') \<Rightarrow> (Some err, s')
      | (None, s') \<Rightarrow> Walk_children es visitor s')"
| "Walk (Some (Categorization b label es)) visitor s =
     (case VisitCategorization visitor (Categorization b label es) s of
        (Some err, s') \<Rightarrow> (Some err, s')
      | (None, s') \<Rightarrow> Walk_children es visitor s')"
| "Walk (Some (Category b label es)) visitor s =
     (case VisitCategory visitor (Category b label es) s of
        (Some err, s') \<Rightarrow> (Some err, s')
      | (None, s') \<Rightarrow> Walk_children es visitor s')"
| "Walk (Some (Label b text)) visitor s = VisitLabel visitor (Label b text) s"
| "Walk (Some (CustomElement b raw es)) visitor s =
     (case VisitCustomElement visitor (CustomElement b raw es) s of
        (Some err, s') \<Rightarrow> (Some err, s')
      | (None, s') \<Rightarrow> Walk_children es visitor s')"
| "Walk_children [] visitor s = (None, s)"
| "Walk_children (child # rest) visitor s =
     (case Walk (Some child) visitor s of
        (Some err, s') \<Rightarrow> (Some err, s')
      | (None, s') \<Rightarrow> Walk_children rest visitor s')"
  by pat_completeness auto
termination
  by (relation "measure (\<lambda>x. case x of
          Inl (None, v, s) \<Rightarrow> 0
        | Inl (Some e, v, s) \<Rightarrow> 2 * size e
        | Inr (es, v, s) \<Rightarrow> 2 * size_list size es + 1)")
     auto

section \<open>Accessors and notions used to state the properties\<close>

text \<open>The embedded \<^verbatim>\<open>BaseUISchemaElement\<close> of a node, its \<^verbatim>\<open>GetType\<close> method, and
  the \<^verbatim>\<open>Elements\<close> field (empty for the two variants that have none).\<close>

fun base_of :: "element \<Rightarrow> base_element" where
  "base_of (Control b scope label) = b"
| "base_of (VerticalLayout b es) = b"
| "base_of (HorizontalLayout b es) = b"
| "base_of (Group b label es) = b"
| "base_of (Categorization b label es) = b"
| "base_of (Category b label es) = b"
| "base_of (Label b text) = b"
| "base_of (CustomElement b raw es) = b"

definition GetType :: "element \<Rightarrow> string" where
  "GetType e = Type (base_of e)"

fun Elements :: "element \<Rightarrow> element list" where
  "Elements (Control b scope label) = []"
| "Elements (VerticalLayout b es) = es"
| "Elements (HorizontalLayout b es) = es"
| "Elements (Group b label es) = es"
| "Elements (Categorization b label es) = es"
| "Elements (Category b label es) = es"
| "Elements (Label b text) = []"
| "Elements (CustomElement b raw es) = es"

text \<open>One round of the loops over \<^verbatim>\<open>conditions\<close> and over \<^verbatim>\<open>elements\<close>: the entry
  must be an object, and is then parsed.\<close>

definition condition_entry :: "json \<Rightarrow> error + condition" where
  "condition_entry condData =
     (case condData of
        JObj condMap \<Rightarrow> parseCondition condMap
      | _ \<Rightarrow> Inl ErrElementNotObject)"

definition element_entry :: "json \<Rightarrow> error + element" where
  "element_entry elemData =
     (case elemData of
        JObj elemMap \<Rightarrow> parseUISchemaElement elemMap
      | _ \<Rightarrow> Inl ErrElementNotObject)"

text \<open>The required fields of a condition object, as the specification lists them: a
  leaf condition requires a string \<^verbatim>\<open>scope\<close> and the key \<^verbatim>\<open>expectedValue\<close>; an and- and
  an or-condition require an array \<^verbatim>\<open>conditions\<close>; a schema-based condition (the type
  \<^verbatim>\<open>"SCHEMA_BASED"\<close>, the empty string or no string type) requires a string \<^verbatim>\<open>scope\<close>
  and the key \<^verbatim>\<open>schema\<close>. \<open>spec_missing_field\<close> is the named error of the first required
  field that an object lacks, if it lacks one. An entry of a \<^verbatim>\<open>conditions\<close> array is a
  failing entry when it is not an object, when it lacks a required field, or when its
  own parse fails.\<close>

definition spec_missing_field :: "jmap \<Rightarrow> error option" where
  "spec_missing_field m =
     (let t = (case get_string m ''type'' of Some t \<Rightarrow> t | None \<Rightarrow> [])
      in if t = ''LEAF'' then
           (if get_string m ''scope'' = None then Some ErrLeafConditionMissingScope
            else if map_of m ''expectedValue'' = None then Some ErrLeafConditionMissingValue
            else None)
         else if t = ''AND'' then
           (if get_array m ''conditions'' = None then Some ErrAndConditionMissingConditions
            else None)
         else if t = ''OR'' then
           (if get_array m ''conditions'' = None then Some ErrOrConditionMissingConditions
            else None)
         else if t = ''SCHEMA_BASED'' \<or> t = [] then
           (if get_string m ''scope'' = None then Some ErrSchemaConditionMissingScope
            else if map_of m ''schema'' = None then Some ErrSchemaConditionMissingSchema
            else None)
         else None)"

definition spec_failing_entry :: "json \<Rightarrow> bool" where
  "spec_failing_entry condData =
     (case condData of
        JObj condMap \<Rightarrow>
          (case spec_missing_field condMap of
             Some err \<Rightarrow> True
           | None \<Rightarrow> isl (parseCondition condMap))
      | _ \<Rightarrow> True)"

text \<open>The method of the visitor that \<open>Walk\<close> calls for a node.\<close>

fun visit :: "('s, 'e) visitor \<Rightarrow> element \<Rightarrow> 's \<Rightarrow> 'e option \<times> 's" where
  "visit v (Control b scope label) = VisitControl v (Control b scope label)"
| "visit v (VerticalLayout b es) = VisitVerticalLayout v (VerticalLayout b es)"
| "visit v (HorizontalLayout b es) = VisitHorizontalLayout v (HorizontalLayout b es)"
| "visit v (Group b label es) = VisitGroup v (Group b label es)"
| "visit v (Categorization b label es) = VisitCategorization v (Categorization b label es)"
| "visit v (Category b label es) = VisitCategory v (Category b label es)"
| "visit v (Label b text) = VisitLabel v (Label b text)"
| "visit v (CustomElement b raw es) = VisitCustomElement v (CustomElement b raw es)"

text \<open>The traversal as the specification words it: the nodes in pre-order (a node, then
  the subtrees of its children from first to last), and the callbacks made along a list
  of nodes up to the first one that fails.\<close>

fun spec_preorder :: "element \<Rightarrow> element list" where
  "spec_preorder (Control b scope label) = [Control b scope label]"
| "spec_preorder (VerticalLayout b es) =
     VerticalLayout b es # concat (map spec_preorder es)"
| "spec_preorder (HorizontalLayout b es) =
     HorizontalLayout b es # concat (map spec_preorder es)"
| "spec_preorder (Group b label es) =
     Group b label es # concat (map spec_preorder es)"
| "spec_preorder (Categorization b label es) =
     Categorization b label es # concat (map spec_preorder es)"
| "spec_preorder (Category b label es) =
     Category b label es # concat (map spec_preorder es)"
| "spec_preorder (Label b text) = [Label b text]"
| "spec_preorder (CustomElement b raw es) =
     CustomElement b raw es # concat (map spec_preorder es)"

fun spec_callbacks :: "('s, 'e) visitor \<Rightarrow> element list \<Rightarrow> 's \<Rightarrow> 'e option \<times> 's" where
  "spec_callbacks v [] s = (None, s)"
| "spec_callbacks v (e # es) s =
     (case visit v e s of
        (Some err, s') \<Rightarrow> (Some err, s')
      | (None, s') \<Rightarrow> spec_callbacks v es s')"

text \<open>A decoder given by a table of a few texts, each with the value it denotes as JSON,
  for the examples below; it decodes no other text. \<open>sample_label_text\<close> is the text
  \<^verbatim>\<open>{"type":"Label","text":"Hi"}\<close>.\<close>

definition quoted :: "string \<Rightarrow> string" where
  "quoted s = CHR 0x22 # s @ [CHR 0x22]"

definition sample_label_text :: string where
  "sample_label_text =
     ''{'' @ quoted ''type'' @ '':'' @ quoted ''Label'' @ '','' @
     quoted ''text'' @ '':'' @ quoted ''Hi'' @ ''}''"

definition sample_decode :: decoder where
  "sample_decode text =
     (if text = sample_label_text
      then Some (JObj [(''type'', JStr ''Label''), (''text'', JStr ''Hi'')])
      else if text = ''null'' then Some JNull
      else if text = ''[]'' then Some (JArr [])
      else if text = ''true'' then Some (JBool True)
      else if text = ''{}'' then Some (JObj [])
      else None)"

text \<open>A visitor for the examples: its state is the list of the types of the nodes it
  was called on, and its method for Group fails after recording the call.\<close>

definition sample_base :: "string \<Rightarrow> base_element" where
  "sample_base t = \<lparr>Type = t, Rule = None, Options = None, I18n = None\<rparr>"

definition record_call :: "element \<Rightarrow> string list \<Rightarrow> string option \<times> string list" where
  "record_call e s = (None, s @ [GetType e])"

definition sample_visitor :: "(string list, string) visitor" where
  "sample_visitor =
     \<lparr>VisitControl = record_call,
      VisitVerticalLayout = record_call,
      VisitHorizontalLayout = record_call,
      VisitGroup = (\<lambda>e s. (Some ''stop'', s @ [GetType e])),
      VisitCategorization = record_call,
      VisitCategory = record_call,
      VisitLabel = record_call,
      VisitCustomElement = record_call\<rparr>"

section \<open>Properties of the condition and rule parser\<close>

lemma get_string_None_iff:
  "get_string data k = None \<longleftrightarrow> (\<forall>s. map_of data k \<noteq> Some (JStr s))"
  by (auto simp: get_string_def split: option.splits json.splits)

lemma get_object_None_iff:
  "get_object data k = None \<longleftrightarrow> (\<forall>m. map_of data k \<noteq> Some (JObj m))"
  by (auto simp: get_object_def split: option.splits json.splits)









text \<open>
  Claim C6. \<open>parseRule\<close> checks in this order: an \<^verbatim>\<open>effect\<close> that is missing or not a
  string is the rule-missing-effect error; then a \<^verbatim>\<open>condition\<close> that is missing or not
  an object is the rule-missing-condition error; then a failure of the condition parser
  comes back wrapped as "failed to parse condition"; otherwise the rule holds the effect
  string as it was given, whatever string it is, and the parsed condition.
\<close>

theorem parseRule_fields:
  "((\<forall>s. map_of data ''effect'' \<noteq> Some (JStr s)) \<longrightarrow>
      parseRule data = Inl ErrRuleMissingEffect) \<and>
   (\<forall>effect. map_of data ''effect'' = Some (JStr effect) \<longrightarrow>
      ((\<forall>m. map_of data ''condition'' \<noteq> Some (JObj m)) \<longrightarrow>
         parseRule data = Inl ErrRuleMissingCondition) \<and>
      (\<forall>conditionData. map_of data ''condition'' = Some (JObj conditionData) \<longrightarrow>
         (\<forall>err. parseCondition conditionData = Inl err \<longrightarrow>
            parseRule data = Inl (FailedToParseCondition err)) \<and>
         (\<forall>c. parseCondition conditionData = Inr c \<longrightarrow>
            parseRule data = Inr \<lparr>Effect = effect, Condition = c\<rparr>)))"
proof (intro conjI impI allI)
  assume "\<forall>s. map_of data ''effect'' \<noteq> Some (JStr s)"
  then have "get_string data ''effect'' = None"
    by (simp add: get_string_None_iff)
  then show "parseRule data = Inl ErrRuleMissingEffect"
    by (simp add: parseRule_def)
next
  fix effect
  assume "map_of data ''effect'' = Some (JStr effect)"
  then have eff: "get_string data ''effect'' = Some effect"
    by (simp add: get_string_def)
  {
    assume "\<forall>m. map_of data ''condition'' \<noteq> Some (JObj m)"
    then have "get_object data ''condition'' = None"
      by (simp add: get_object_None_iff)
    with eff show "parseRule data = Inl ErrRuleMissingCondition"
      by (simp add: parseRule_def)
  }
  fix conditionData
  assume "map_of data ''condition'' = Some (JObj conditionData)"
  then have cond: "get_object data ''condition'' = Some conditionData"
    by (simp add: get_object_def)
  {
    fix err
    assume "parseCondition conditionData = Inl err"
    with eff cond show "parseRule data = Inl (FailedToParseCondition err)"
      by (simp add: parseRule_def)
  }
  fix c
  assume "parseCondition conditionData = Inr c"
  with eff cond show "parseRule data = Inr \<lparr>Effect = effect, Condition = c\<rparr>"
    by (simp add: parseRule_def)
qed

theorem parseRule_fields_witness:
  "parseRule [(''condition'', JObj [])] = Inl ErrRuleMissingEffect \<and>
   parseRule [(''effect'', JStr ''BLINK''), (''condition'', JStr ''x'')] =
     Inl ErrRuleMissingCondition \<and>
   parseRule [(''effect'', JStr ''BLINK''), (''condition'', JObj [(''type'', JStr ''XOR'')])] =
     Inl (FailedToParseCondition (ErrUnknownConditionType ''XOR'')) \<and>
   parseRule [(''effect'', JStr ''BLINK''),
              (''condition'', JObj [(''scope'', JStr ''#/a''), (''schema'', JNull)])] =
     Inr \<lparr>Effect = ''BLINK'', Condition = SchemaBasedCondition [] ''#/a'' JNull None\<rparr>"
  using parseRule_fields [of "[(''condition'', JObj [])]"]
    parseRule_fields [of "[(''effect'', JStr ''BLINK''), (''condition'', JStr ''x'')]"]
    parseRule_fields [of "[(''effect'', JStr ''BLINK''),
                           (''condition'', JObj [(''type'', JStr ''XOR'')])]"]
    parseRule_fields [of "[(''effect'', JStr ''BLINK''),
              (''condition'', JObj [(''scope'', JStr ''#/a''), (''schema'', JNull)])]"]
  by (simp add: parseCondition.simps get_string_def get_bool_def
      parseSchemaBasedCondition_def)

lemma parseAndCondition_loop_first_failure:
  "k < length xs \<Longrightarrow> condition_entry (xs ! k) = Inl e \<Longrightarrow>
   (\<forall>j<k. \<not> isl (condition_entry (xs ! j))) \<Longrightarrow>
   parseAndCondition_loop i xs acc = Inl (ConditionAt (i + k) e)"
proof (induction xs arbitrary: i k acc)
  case Nil
  then show ?case by simp
next
  case (Cons x xs)
  show ?case
  proof (cases k)
    case 0
    with Cons.prems show ?thesis
      by (auto simp: condition_entry_def split: json.splits)
  next
    case (Suc k')
    from Cons.prems Suc have "\<not> isl (condition_entry x)"
      by auto
    then obtain m where m: "x = JObj m" "\<not> isl (parseCondition m)"
      by (cases x) (auto simp: condition_entry_def)
    then obtain c where "parseCondition m = Inr c"
      by (cases "parseCondition m") auto
    with m have x: "x = JObj m" "parseCondition m = Inr c"
      by simp_all
    have "parseAndCondition_loop (Suc i) xs (acc @ [c]) = Inl (ConditionAt (Suc i + k') e)"
      using Cons.prems Suc by (intro Cons.IH) auto
    with x Suc show ?thesis by simp
  qed
qed

lemma parseOrCondition_loop_first_failure:
  "k < length xs \<Longrightarrow> condition_entry (xs ! k) = Inl e \<Longrightarrow>
   (\<forall>j<k. \<not> isl (condition_entry (xs ! j))) \<Longrightarrow>
   parseOrCondition_loop i xs acc = Inl (ConditionAt (i + k) e)"
proof (induction xs arbitrary: i k acc)
  case Nil
  then show ?case by simp
next
  case (Cons x xs)
  show ?case
  proof (cases k)
    case 0
    with Cons.prems show ?thesis
      by (auto simp: condition_entry_def split: json.splits)
  next
    case (Suc k')
    from Cons.prems Suc have "\<not> isl (condition_entry x)"
      by auto
    then obtain m where m: "x = JObj m" "\<not> isl (parseCondition m)"
      by (cases x) (auto simp: condition_entry_def)
    then obtain c where "parseCondition m = Inr c"
      by (cases "parseCondition m") auto
    with m have x: "x = JObj m" "parseCondition m = Inr c"
      by simp_all
    have "parseOrCondition_loop (Suc i) xs (acc @ [c]) = Inl (ConditionAt (Suc i + k') e)"
      using Cons.prems Suc by (intro Cons.IH) auto
    with x Suc show ?thesis by simp
  qed
qed

lemma first_failing_entry:
  "list_ex (\<lambda>x. isl (condition_entry x)) xs \<Longrightarrow>
   \<exists>k e. k < length xs \<and> condition_entry (xs ! k) = Inl e \<and>
         (\<forall>j<k. \<not> isl (condition_entry (xs ! j)))"
proof (induction xs)
  case Nil
  then show ?case by simp
next
  case (Cons x xs)
  show ?case
  proof (cases "condition_entry x")
    case (Inl e)
    then have "0 < length (x # xs) \<and> condition_entry ((x # xs) ! 0) = Inl e \<and>
               (\<forall>j<0. \<not> isl (condition_entry ((x # xs) ! j)))"
      by simp
    then show ?thesis by blast
  next
    case (Inr c)
    with Cons.prems have "list_ex (\<lambda>x. isl (condition_entry x)) xs"
      by simp
    then obtain k e where k: "k < length xs" "condition_entry (xs ! k) = Inl e"
      "\<forall>j<k. \<not> isl (condition_entry (xs ! j))"
      using Cons.IH by blast
    have "\<forall>j<Suc k. \<not> isl (condition_entry ((x # xs) ! j))"
    proof (intro allI impI)
      fix j
      assume "j < Suc k"
      then show "\<not> isl (condition_entry ((x # xs) ! j))"
        using Inr k(3) by (cases j) auto
    qed
    with k have "Suc k < length (x # xs) \<and> condition_entry ((x # xs) ! Suc k) = Inl e \<and>
                 (\<forall>j<Suc k. \<not> isl (condition_entry ((x # xs) ! j)))"
      by simp
    then show ?thesis by blast
  qed
qed

lemma parseCondition_missing_field:
  "spec_missing_field m = Some err \<Longrightarrow> parseCondition m = Inl err"
proof -
  assume a: "spec_missing_field m = Some err"
  define t where "t = (case get_string m ''type'' of Some t \<Rightarrow> t | None \<Rightarrow> [])"
  consider (leaf) "t = ''LEAF''" | (conj) "t = ''AND''" | (disj) "t = ''OR''"
    | (schema) "t = ''SCHEMA_BASED''" | (empty) "t = []"
    | (other) "t \<notin> {''LEAF'', ''AND'', ''OR'', ''SCHEMA_BASED'', []}"
    by auto
  then show ?thesis
  proof cases
    case leaf
    with a show ?thesis
      unfolding spec_missing_field_def parseCondition.simps [of m] t_def [symmetric] Let_def
      by (simp add: parseLeafCondition_def split: if_splits option.splits)
  next
    case conj
    with a show ?thesis
      unfolding spec_missing_field_def parseCondition.simps [of m] t_def [symmetric] Let_def
      by (simp add: parseAndCondition.simps split: if_splits option.splits)
  next
    case disj
    with a show ?thesis
      unfolding spec_missing_field_def parseCondition.simps [of m] t_def [symmetric] Let_def
      by (simp add: parseOrCondition.simps split: if_splits option.splits)
  next
    case schema
    with a show ?thesis
      unfolding spec_missing_field_def parseCondition.simps [of m] t_def [symmetric] Let_def
      by (simp add: parseSchemaBasedCondition_def split: if_splits option.splits)
  next
    case empty
    with a show ?thesis
      unfolding spec_missing_field_def parseCondition.simps [of m] t_def [symmetric] Let_def
      by (simp add: parseSchemaBasedCondition_def split: if_splits option.splits)
  next
    case other
    with a show ?thesis
      unfolding spec_missing_field_def parseCondition.simps [of m] t_def [symmetric] Let_def
      by (simp split: if_splits)
  qed
qed

lemma spec_failing_entry_iff:
  "spec_failing_entry x \<longleftrightarrow> isl (condition_entry x)"
  by (cases x)
     (auto simp: spec_failing_entry_def condition_entry_def
      dest: parseCondition_missing_field split: option.splits)


text \<open>
  Claim C4. A condition object that lacks a required field is rejected by
  \<open>parseCondition\<close>, with the named error of that field. Let the \<^verbatim>\<open>conditions\<close> array
  of an object hold a failing entry: one that is not an object, or that lacks a required
  field, or whose own parse fails. Then \<open>parseAndCondition\<close> and \<open>parseOrCondition\<close>
  return an error and no condition: the error of the first failing entry (its
  missing-field error, when that entry lacks a required field), wrapped with that
  entry's position counted from 0. The same error comes out of \<open>parseCondition\<close> for an
  object whose \<^verbatim>\<open>type\<close> is \<^verbatim>\<open>"AND"\<close> or \<^verbatim>\<open>"OR"\<close>. The failing entries are exactly the
  entries on which a round of the loop fails.
\<close>

theorem and_or_indexed_failure:
  "(\<forall>err. spec_missing_field m = Some err \<longrightarrow> parseCondition m = Inl err) \<and>
   (spec_failing_entry x \<longleftrightarrow> isl (condition_entry x)) \<and>
   (get_array data ''conditions'' = Some xs \<and> list_ex spec_failing_entry xs \<longrightarrow>
     (\<exists>k e. k < length xs \<and> spec_failing_entry (xs ! k) \<and>
        (\<forall>j<k. \<not> spec_failing_entry (xs ! j)) \<and>
        condition_entry (xs ! k) = Inl e \<and>
        (\<forall>j<k. \<not> isl (condition_entry (xs ! j))) \<and>
        (\<forall>condMap err. xs ! k = JObj condMap \<and> spec_missing_field condMap = Some err \<longrightarrow>
           e = err) \<and>
        parseAndCondition data = Inl (ConditionAt k e) \<and>
        parseOrCondition data = Inl (ConditionAt k e) \<and>
        (get_string data ''type'' = Some ''AND'' \<longrightarrow>
           parseCondition data = Inl (ConditionAt k e)) \<and>
        (get_string data ''type'' = Some ''OR'' \<longrightarrow>
           parseCondition data = Inl (ConditionAt k e))))"
proof (intro conjI impI allI)
  fix err
  assume "spec_missing_field m = Some err"
  then show "parseCondition m = Inl err"
    by (rule parseCondition_missing_field)
next
  show "spec_failing_entry x \<longleftrightarrow> isl (condition_entry x)"
    by (rule spec_failing_entry_iff)
next
  assume a: "get_array data ''conditions'' = Some xs \<and> list_ex spec_failing_entry xs"
  have eq: "spec_failing_entry = (\<lambda>x. isl (condition_entry x))"
    by (rule ext) (rule spec_failing_entry_iff)
  from a have "list_ex (\<lambda>x. isl (condition_entry x)) xs"
    by (simp add: eq)
  then obtain k e where k: "k < length xs" "condition_entry (xs ! k) = Inl e"
    "\<forall>j<k. \<not> isl (condition_entry (xs ! j))"
    using first_failing_entry by blast
  have f1: "spec_failing_entry (xs ! k)"
    using k(2) by (simp add: spec_failing_entry_iff)
  have f2: "\<forall>j<k. \<not> spec_failing_entry (xs ! j)"
    using k(3) by (simp add: spec_failing_entry_iff)
  have named: "\<forall>condMap err. xs ! k = JObj condMap \<and> spec_missing_field condMap = Some err \<longrightarrow>
           e = err"
  proof (intro allI impI)
    fix condMap err
    assume "xs ! k = JObj condMap \<and> spec_missing_field condMap = Some err"
    then have "condition_entry (xs ! k) = Inl err"
      by (simp add: condition_entry_def parseCondition_missing_field)
    with k(2) show "e = err"
      by simp
  qed
  have c: "parseAndCondition data = Inl (ConditionAt k e)"
    using a parseAndCondition_loop_first_failure [OF k, of 0 "[]"]
    by (simp add: parseAndCondition.simps)
  have d: "parseOrCondition data = Inl (ConditionAt k e)"
    using a parseOrCondition_loop_first_failure [OF k, of 0 "[]"]
    by (simp add: parseOrCondition.simps)
  have c': "get_string data ''type'' = Some ''AND'' \<longrightarrow> parseCondition data = Inl (ConditionAt k e)"
    using c by (simp add: parseCondition.simps)
  have d': "get_string data ''type'' = Some ''OR'' \<longrightarrow> parseCondition data = Inl (ConditionAt k e)"
    using d by (simp add: parseCondition.simps)
  show "\<exists>k e. k < length xs \<and> spec_failing_entry (xs ! k) \<and>
        (\<forall>j<k. \<not> spec_failing_entry (xs ! j)) \<and>
        condition_entry (xs ! k) = Inl e \<and>
        (\<forall>j<k. \<not> isl (condition_entry (xs ! j))) \<and>
        (\<forall>condMap err. xs ! k = JObj condMap \<and> spec_missing_field condMap = Some err \<longrightarrow>
           e = err) \<and>
        parseAndCondition data = Inl (ConditionAt k e) \<and>
        parseOrCondition data = Inl (ConditionAt k e) \<and>
        (get_string data ''type'' = Some ''AND'' \<longrightarrow>
           parseCondition data = Inl (ConditionAt k e)) \<and>
        (get_string data ''type'' = Some ''OR'' \<longrightarrow>
           parseCondition data = Inl (ConditionAt k e))"
    by (intro exI [of _ k] exI [of _ e] conjI k(1) f1 f2 k(2) k(3) named c d c' d')
qed

theorem and_or_indexed_failure_witness:
  "parseCondition
     [(''type'', JStr ''AND''),
      (''conditions'', JArr
         [JObj [(''type'', JStr ''LEAF''), (''scope'', JStr ''#/a''), (''expectedValue'', JNull)],
          JObj [(''type'', JStr ''LEAF''), (''scope'', JStr ''#/b'')],
          JNum 5])] =
   Inl (ConditionAt 1 ErrLeafConditionMissingValue) \<and>
   parseCondition
     [(''type'', JStr ''OR''), (''conditions'', JArr [JObj [(''scope'', JStr ''#/a'')]])] =
   Inl (ConditionAt 0 ErrSchemaConditionMissingSchema)"
  (is "parseCondition ?data = _ \<and> parseCondition ?data' = _")
proof
  let ?xs = "[JObj [(''type'', JStr ''LEAF''), (''scope'', JStr ''#/a''), (''expectedValue'', JNull)],
          JObj [(''type'', JStr ''LEAF''), (''scope'', JStr ''#/b'')],
          JNum 5]"
  have e0: "condition_entry (?xs ! 0) = Inr (LeafCondition ''LEAF'' ''#/a'' JNull)"
    by (simp add: condition_entry_def parseCondition.simps get_string_def
        parseLeafCondition_def)
  have m1: "spec_missing_field [(''type'', JStr ''LEAF''), (''scope'', JStr ''#/b'')] =
              Some ErrLeafConditionMissingValue"
    by (simp add: spec_missing_field_def get_string_def)
  have f1: "spec_failing_entry (?xs ! 1)"
    by (simp add: spec_failing_entry_def m1)
  have arr: "get_array ?data ''conditions'' = Some ?xs \<and> list_ex spec_failing_entry ?xs"
    by (simp add: get_array_def spec_failing_entry_def m1)
  have ty: "get_string ?data ''type'' = Some ''AND''"
    by (simp add: get_string_def)
  from and_or_indexed_failure [of "[]" JNull ?data ?xs, THEN conjunct2, THEN conjunct2,
      THEN mp, OF arr]
  obtain k e where k: "k < length ?xs" "condition_entry (?xs ! k) = Inl e"
    "\<forall>j<k. \<not> spec_failing_entry (?xs ! j)"
    "\<forall>condMap err. ?xs ! k = JObj condMap \<and> spec_missing_field condMap = Some err \<longrightarrow> e = err"
    "get_string ?data ''type'' = Some ''AND'' \<longrightarrow> parseCondition ?data = Inl (ConditionAt k e)"
    by (elim exE conjE)
  have "k \<noteq> 0"
    using k(2) e0 by (intro notI) simp
  moreover have "\<not> 1 < k"
    using k(3) f1 by (intro notI) blast
  ultimately have k1: "k = 1"
    by simp
  with k(4) m1 have "e = ErrLeafConditionMissingValue"
    by simp
  with k(5) ty k1 show "parseCondition ?data = Inl (ConditionAt 1 ErrLeafConditionMissingValue)"
    by simp
next
  let ?ys = "[JObj [(''scope'', JStr ''#/a'')]]"
  have m0: "spec_missing_field [(''scope'', JStr ''#/a'')] = Some ErrSchemaConditionMissingSchema"
    by (simp add: spec_missing_field_def get_string_def)
  have arr: "get_array ?data' ''conditions'' = Some ?ys \<and> list_ex spec_failing_entry ?ys"
    by (simp add: get_array_def spec_failing_entry_def m0)
  have ty: "get_string ?data' ''type'' = Some ''OR''"
    by (simp add: get_string_def)
  from and_or_indexed_failure [of "[]" JNull ?data' ?ys, THEN conjunct2, THEN conjunct2,
      THEN mp, OF arr]
  obtain k e where k: "k < length ?ys"
    "\<forall>condMap err. ?ys ! k = JObj condMap \<and> spec_missing_field condMap = Some err \<longrightarrow> e = err"
    "get_string ?data' ''type'' = Some ''OR'' \<longrightarrow> parseCondition ?data' = Inl (ConditionAt k e)"
    by (elim exE conjE)
  from k(1) have k0: "k = 0"
    by simp
  with k(2) m0 have "e = ErrSchemaConditionMissingSchema"
    by simp
  with k(3) ty k0 show "parseCondition ?data' = Inl (ConditionAt 0 ErrSchemaConditionMissingSchema)"
    by simp
qed

section \<open>Properties of the node classifier\<close>

text \<open>
  Claim C5. When the \<^verbatim>\<open>type\<close> field of an object is absent or is not a string,
  \<open>parseUISchemaElement\<close> returns the missing-type error, whatever else the object
  holds: the check comes before the base fields are read and before any check of one
  variant.
\<close>

theorem missing_type_field_first:
  "(\<forall>s. map_of data ''type'' \<noteq> Some (JStr s)) \<longrightarrow>
     parseUISchemaElement data = Inl ErrMissingTypeField"
proof
  assume "\<forall>s. map_of data ''type'' \<noteq> Some (JStr s)"
  then have "get_string data ''type'' = None"
    by (simp add: get_string_None_iff)
  then show "parseUISchemaElement data = Inl ErrMissingTypeField"
    by (simp add: parseUISchemaElement.simps)
qed

theorem missing_type_field_first_witness:
  "parseUISchemaElement [(''rule'', JObj []), (''scope'', JBool True)] =
     Inl ErrMissingTypeField \<and>
   parseUISchemaElement [(''type'', JNum 1), (''rule'', JObj [])] = Inl ErrMissingTypeField \<and>
   parseUISchemaElement [(''type'', JStr ''Control''), (''rule'', JObj [])] =
     Inl (FailedToParseRule ErrRuleMissingEffect)"
  using missing_type_field_first [of "[(''rule'', JObj []), (''scope'', JBool True)]"]
    missing_type_field_first [of "[(''type'', JNum 1), (''rule'', JObj [])]"]
  by (simp add: parseUISchemaElement.simps parseBaseElement_def parseRule_def
      get_string_def get_object_def)

text \<open>
  Claim C9. With a string \<^verbatim>\<open>type\<close>, \<open>parseBaseElement\<close> fails only when \<^verbatim>\<open>rule\<close> is an
  object that the rule parser rejects. A \<^verbatim>\<open>rule\<close> that is not an object is read as no
  rule and the base fields are returned; an \<^verbatim>\<open>options\<close> that is not an object is read as
  no options, and an \<^verbatim>\<open>i18n\<close> that is not a string as no key, in every base element
  that is returned.
\<close>

theorem parseBaseElement_lenient:
  "map_of data ''type'' = Some (JStr t) \<longrightarrow>
     ((\<forall>m. map_of data ''rule'' \<noteq> Some (JObj m)) \<longrightarrow>
        parseBaseElement data =
          Inr \<lparr>Type = t, Rule = None, Options = get_object data ''options'',
               I18n = get_string data ''i18n''\<rparr>) \<and>
     (\<forall>base. parseBaseElement data = Inr base \<longrightarrow>
        ((\<forall>m. map_of data ''options'' \<noteq> Some (JObj m)) \<longrightarrow> Options base = None) \<and>
        ((\<forall>s. map_of data ''i18n'' \<noteq> Some (JStr s)) \<longrightarrow> I18n base = None)) \<and>
     (\<forall>err. parseBaseElement data = Inl err \<longrightarrow>
        (\<exists>ruleData e. map_of data ''rule'' = Some (JObj ruleData) \<and>
           parseRule ruleData = Inl e \<and> err = FailedToParseRule e))"
proof (intro conjI impI allI)
  assume "map_of data ''type'' = Some (JStr t)"
  then have ty: "get_string data ''type'' = Some t"
    by (simp add: get_string_def)
  {
    assume "\<forall>m. map_of data ''rule'' \<noteq> Some (JObj m)"
    then have "get_object data ''rule'' = None"
      by (simp add: get_object_None_iff)
    with ty show "parseBaseElement data =
          Inr \<lparr>Type = t, Rule = None, Options = get_object data ''options'',
               I18n = get_string data ''i18n''\<rparr>"
      by (simp add: parseBaseElement_def)
  }
  {
    fix base
    assume ok: "parseBaseElement data = Inr base"
    {
      assume "\<forall>m. map_of data ''options'' \<noteq> Some (JObj m)"
      then have "get_object data ''options'' = None"
        by (simp add: get_object_None_iff)
      with ok ty show "Options base = None"
        by (auto simp: parseBaseElement_def split: option.splits sum.splits)
    }
    assume "\<forall>s. map_of data ''i18n'' \<noteq> Some (JStr s)"
    then have "get_string data ''i18n'' = None"
      by (simp add: get_string_None_iff)
    with ok ty show "I18n base = None"
      by (auto simp: parseBaseElement_def split: option.splits sum.splits)
  }
  fix err
  assume "parseBaseElement data = Inl err"
  with ty show "\<exists>ruleData e. map_of data ''rule'' = Some (JObj ruleData) \<and>
           parseRule ruleData = Inl e \<and> err = FailedToParseRule e"
    by (auto simp: parseBaseElement_def get_object_def
        split: option.splits sum.splits json.splits)
qed

theorem parseBaseElement_lenient_witness:
  "parseBaseElement [(''type'', JStr ''Control''), (''rule'', JStr ''HIDE''),
                     (''options'', JArr []), (''i18n'', JNum 7)] =
     Inr \<lparr>Type = ''Control'', Rule = None, Options = None, I18n = None\<rparr>"
  using parseBaseElement_lenient [of "[(''type'', JStr ''Control''), (''rule'', JStr ''HIDE''),
                     (''options'', JArr []), (''i18n'', JNum 7)]" "''Control''"]
  by (simp add: get_object_def get_string_def)

lemma parseCategorization_loop_filter:
  "map element_entry xs = map Inr es \<Longrightarrow>
   parseCategorization_loop i xs acc = Inr (acc @ filter isCategoryElement es)"
proof (induction xs arbitrary: i acc es)
  case Nil
  then show ?case by simp
next
  case (Cons x xs)
  then obtain e es' where es: "es = e # es'" "element_entry x = Inr e"
    "map element_entry xs = map Inr es'"
    by (cases es) auto
  from es(2) obtain m where m: "x = JObj m" "parseUISchemaElement m = Inr e"
    by (cases x) (auto simp: element_entry_def)
  show ?case
    using m es(1) Cons.IH [OF es(3)] by simp
qed

text \<open>
  Claim C1. Let every entry of the \<^verbatim>\<open>elements\<close> array of a Categorization object be an
  object that the node classifier parses, to the nodes \<open>es\<close> in this order. Then
  \<open>parseCategorization\<close> returns no error, and the children of the Categorization it
  returns are the Category and Categorization nodes among \<open>es\<close>, in their order in
  \<open>es\<close>; nodes of every other variant are left out. So does \<open>parseUISchemaElement\<close> for
  an object of type \<^verbatim>\<open>"Categorization"\<close> whose base fields parse.
\<close>

theorem categorization_keeps_category_elements:
  "get_array data ''elements'' = Some xs \<and> map element_entry xs = map Inr es \<longrightarrow>
     parseCategorization data base =
       Inr (Categorization base (get_string data ''label'') (filter isCategoryElement es)) \<and>
     (get_string data ''type'' = Some ''Categorization'' \<and> parseBaseElement data = Inr base \<longrightarrow>
        parseUISchemaElement data =
          Inr (Categorization base (get_string data ''label'') (filter isCategoryElement es)))"
proof
  assume a: "get_array data ''elements'' = Some xs \<and> map element_entry xs = map Inr es"
  then have "parseCategorization_loop 0 xs [] = Inr (filter isCategoryElement es)"
    using parseCategorization_loop_filter [of xs es 0 "[]"] by simp
  with a have c: "parseCategorization data base =
       Inr (Categorization base (get_string data ''label'') (filter isCategoryElement es))"
    by (simp add: parseCategorization.simps)
  then show "parseCategorization data base =
       Inr (Categorization base (get_string data ''label'') (filter isCategoryElement es)) \<and>
     (get_string data ''type'' = Some ''Categorization'' \<and> parseBaseElement data = Inr base \<longrightarrow>
        parseUISchemaElement data =
          Inr (Categorization base (get_string data ''label'') (filter isCategoryElement es)))"
    by (simp add: parseUISchemaElement.simps)
qed

lemmas eval_parser =
  parseUISchemaElement.simps parseVerticalLayout.simps parseHorizontalLayout.simps
  parseGroup.simps parseCategorization.simps parseCategory.simps parseCustomElement.simps
  parseElementsArray.simps parseBaseElement_def parseControl_def parseLabel_def
  get_string_def get_object_def get_array_def element_entry_def

theorem categorization_keeps_category_elements_witness:
  "parseUISchemaElement
     [(''type'', JStr ''Categorization''),
      (''elements'', JArr
         [JObj [(''type'', JStr ''Category''), (''label'', JStr ''A''), (''elements'', JArr [])],
          JObj [(''type'', JStr ''Control''), (''scope'', JStr ''#/x'')],
          JObj [(''type'', JStr ''Notice'')],
          JObj [(''type'', JStr ''Categorization''), (''elements'', JArr [])],
          JObj [(''type'', JStr ''Category''), (''label'', JStr ''B''), (''elements'', JArr [])]])] =
   Inr (Categorization \<lparr>Type = ''Categorization'', Rule = None, Options = None, I18n = None\<rparr>
          None
          [Category \<lparr>Type = ''Category'', Rule = None, Options = None, I18n = None\<rparr> ''A'' [],
           Categorization \<lparr>Type = ''Categorization'', Rule = None, Options = None, I18n = None\<rparr>
             None [],
           Category \<lparr>Type = ''Category'', Rule = None, Options = None, I18n = None\<rparr> ''B'' []])"
  using categorization_keeps_category_elements
    [of "[(''type'', JStr ''Categorization''),
      (''elements'', JArr
         [JObj [(''type'', JStr ''Category''), (''label'', JStr ''A''), (''elements'', JArr [])],
          JObj [(''type'', JStr ''Control''), (''scope'', JStr ''#/x'')],
          JObj [(''type'', JStr ''Notice'')],
          JObj [(''type'', JStr ''Categorization''), (''elements'', JArr [])],
          JObj [(''type'', JStr ''Category''), (''label'', JStr ''B''), (''elements'', JArr [])]])]"
      "[JObj [(''type'', JStr ''Category''), (''label'', JStr ''A''), (''elements'', JArr [])],
          JObj [(''type'', JStr ''Control''), (''scope'', JStr ''#/x'')],
          JObj [(''type'', JStr ''Notice'')],
          JObj [(''type'', JStr ''Categorization''), (''elements'', JArr [])],
          JObj [(''type'', JStr ''Category''), (''label'', JStr ''B''), (''elements'', JArr [])]]"
      "[Category \<lparr>Type = ''Category'', Rule = None, Options = None, I18n = None\<rparr> ''A'' [],
        Control \<lparr>Type = ''Control'', Rule = None, Options = None, I18n = None\<rparr> ''#/x'' JNull,
        CustomElement \<lparr>Type = ''Notice'', Rule = None, Options = None, I18n = None\<rparr>
          [(''type'', JStr ''Notice'')] [],
        Categorization \<lparr>Type = ''Categorization'', Rule = None, Options = None, I18n = None\<rparr>
          None [],
        Category \<lparr>Type = ''Category'', Rule = None, Options = None, I18n = None\<rparr> ''B'' []]"
      "\<lparr>Type = ''Categorization'', Rule = None, Options = None, I18n = None\<rparr>"]
  by (simp add: eval_parser)

text \<open>
  Claim C2. Let the \<^verbatim>\<open>type\<close> of an object be a string \<open>t\<close> that is none of the seven
  names the classifier dispatches on (the standard node types), and let its base fields
  parse. Then \<open>parseUISchemaElement\<close> returns a CustomElement, never an error: its
  \<^verbatim>\<open>GetType\<close> is \<open>t\<close>, its raw data is the object itself, and its children are the
  parsed \<^verbatim>\<open>elements\<close> when these parse; when an \<^verbatim>\<open>elements\<close> field is there and does
  not parse, the CustomElement is returned all the same, with no children.
\<close>

theorem custom_element_fallback:
  "get_string data ''type'' = Some t \<and>
   t \<notin> {''Control'', ''VerticalLayout'', ''HorizontalLayout'', ''Group'', ''Categorization'',
        ''Category'', ''Label''} \<and>
   parseBaseElement data = Inr base \<longrightarrow>
     parseUISchemaElement data =
       Inr (CustomElement base data
              (case parseElementsArray data of Inr elements \<Rightarrow> elements | Inl err \<Rightarrow> [])) \<and>
     (\<forall>e. parseUISchemaElement data = Inr e \<longrightarrow> GetType e = t) \<and>
     (map_of data ''elements'' \<noteq> None \<and> isl (parseElementsArray data) \<longrightarrow>
        parseUISchemaElement data = Inr (CustomElement base data []))"
proof
  assume a: "get_string data ''type'' = Some t \<and>
   t \<notin> {''Control'', ''VerticalLayout'', ''HorizontalLayout'', ''Group'', ''Categorization'',
        ''Category'', ''Label''} \<and>
   parseBaseElement data = Inr base"
  then have ty: "Type base = t"
    by (auto simp: parseBaseElement_def split: option.splits sum.splits)
  have absent: "parseElementsArray data = Inl ErrMissingElements" if "map_of data ''elements'' = None"
    using that by (simp add: parseElementsArray.simps get_array_def)
  have custom: "parseCustomElement data base =
      CustomElement base data
        (case parseElementsArray data of Inr elements \<Rightarrow> elements | Inl err \<Rightarrow> [])"
    using absent by (cases "map_of data ''elements''") (simp_all add: parseCustomElement.simps)
  from a have "parseUISchemaElement data = Inr (parseCustomElement data base)"
    by (simp add: parseUISchemaElement.simps)
  with custom have r: "parseUISchemaElement data =
       Inr (CustomElement base data
              (case parseElementsArray data of Inr elements \<Rightarrow> elements | Inl err \<Rightarrow> []))"
    by simp
  show "parseUISchemaElement data =
       Inr (CustomElement base data
              (case parseElementsArray data of Inr elements \<Rightarrow> elements | Inl err \<Rightarrow> [])) \<and>
     (\<forall>e. parseUISchemaElement data = Inr e \<longrightarrow> GetType e = t) \<and>
     (map_of data ''elements'' \<noteq> None \<and> isl (parseElementsArray data) \<longrightarrow>
        parseUISchemaElement data = Inr (CustomElement base data []))"
    using r ty by (auto simp: GetType_def isl_def)
qed

theorem custom_element_fallback_witness:
  "parseUISchemaElement
     [(''type'', JStr ''Notice''), (''elements'', JArr [JObj [(''type'', JStr ''Markdown'')]])] =
   Inr (CustomElement \<lparr>Type = ''Notice'', Rule = None, Options = None, I18n = None\<rparr>
          [(''type'', JStr ''Notice''), (''elements'', JArr [JObj [(''type'', JStr ''Markdown'')]])]
          [CustomElement \<lparr>Type = ''Markdown'', Rule = None, Options = None, I18n = None\<rparr>
             [(''type'', JStr ''Markdown'')] []]) \<and>
   parseUISchemaElement
     [(''type'', JStr ''Notice''),
      (''elements'', JArr [JObj [(''type'', JStr ''Markdown'')], JObj [(''type'', JStr ''Label'')]])] =
   Inr (CustomElement \<lparr>Type = ''Notice'', Rule = None, Options = None, I18n = None\<rparr>
          [(''type'', JStr ''Notice''),
           (''elements'', JArr [JObj [(''type'', JStr ''Markdown'')], JObj [(''type'', JStr ''Label'')]])]
          [])"
  using custom_element_fallback
    [of "[(''type'', JStr ''Notice''), (''elements'', JArr [JObj [(''type'', JStr ''Markdown'')]])]"
        "''Notice''" "\<lparr>Type = ''Notice'', Rule = None, Options = None, I18n = None\<rparr>"]
    custom_element_fallback
    [of "[(''type'', JStr ''Notice''),
      (''elements'', JArr [JObj [(''type'', JStr ''Markdown'')], JObj [(''type'', JStr ''Label'')]])]"
        "''Notice''" "\<lparr>Type = ''Notice'', Rule = None, Options = None, I18n = None\<rparr>"]
  by (simp add: eval_parser)

section \<open>Properties of the top-level entry point\<close>

text \<open>
  Claim C8. When the UI schema text parses, \<open>Parse\<close> with an empty data-schema text
  returns the tree with the schema value \<^verbatim>\<open>nil\<close> (the model's \<open>JNull\<close>: nothing was
  decoded), and no error; with a data-schema text that is not empty and is not valid
  JSON it returns the data-schema decode error, and no tree.
\<close>

theorem data_schema_text:
  "parseUISchema decode uiSchemaJSON = Inr uiSchema \<longrightarrow>
     Parse decode uiSchemaJSON [] = Inr \<lparr>UISchema = uiSchema, Schema = JNull\<rparr> \<and>
     (\<forall>schemaJSON. schemaJSON \<noteq> [] \<and> decode schemaJSON = None \<longrightarrow>
        Parse decode uiSchemaJSON schemaJSON = Inl (FailedToParseDataSchema SyntaxError))"
  by (simp add: Parse_def unmarshal_any_def)

lemma sample_label_text_parses:
  "parseUISchema sample_decode sample_label_text =
     Inr (Label \<lparr>Type = ''Label'', Rule = None, Options = None, I18n = None\<rparr> ''Hi'')"
  by (simp add: parseUISchema_def unmarshal_map_def sample_decode_def
      parseUISchemaElement.simps parseBaseElement_def parseLabel_def
      get_string_def get_object_def)

theorem data_schema_text_witness:
  "Parse sample_decode sample_label_text [] =
     Inr \<lparr>UISchema = Label \<lparr>Type = ''Label'', Rule = None, Options = None, I18n = None\<rparr> ''Hi'',
          Schema = JNull\<rparr> \<and>
   Parse sample_decode sample_label_text ''{bad'' = Inl (FailedToParseDataSchema SyntaxError)"
proof -
  have "sample_decode ''{bad'' = None"
    by (simp add: sample_decode_def sample_label_text_def quoted_def)
  then show ?thesis
    using data_schema_text [of sample_decode sample_label_text
        "Label \<lparr>Type = ''Label'', Rule = None, Options = None, I18n = None\<rparr> ''Hi''"]
    by (simp add: sample_label_text_parses)
qed

lemma parseUISchemaElement_empty:
  "parseUISchemaElement [] = Inl ErrMissingTypeField"
  by (simp add: parseUISchemaElement.simps get_string_def)

text \<open>
  Claim C10, as the code has it. Let the UI schema text be valid JSON. When its top-level
  value is an array, a string, a number or a boolean, \<open>Parse\<close> fails through the
  "invalid JSON" path, as it does for a text that is not valid JSON (the decoder's error
  is a type error in the one case and a syntax error in the other). When the value
  is \<^verbatim>\<open>null\<close>, the decoder reports no error and leaves the map \<^verbatim>\<open>nil\<close>; \<open>Parse\<close> fails
  then with the missing-type error of the node classifier.
\<close>

theorem non_object_ui_schema:
  "(decode data = Some v \<longrightarrow>
      ((\<exists>xs. v = JArr xs) \<or> (\<exists>s. v = JStr s) \<or> (\<exists>n. v = JNum n) \<or> (\<exists>b. v = JBool b) \<longrightarrow>
         Parse decode data schemaJSON =
           Inl (FailedToParseUISchema (InvalidJSON UnmarshalTypeError))) \<and>
      (v = JNull \<longrightarrow>
         Parse decode data schemaJSON = Inl (FailedToParseUISchema ErrMissingTypeField))) \<and>
   (decode data = None \<longrightarrow>
      Parse decode data schemaJSON = Inl (FailedToParseUISchema (InvalidJSON SyntaxError)))"
  by (auto simp: Parse_def parseUISchema_def unmarshal_map_def parseUISchemaElement_empty)

theorem non_object_ui_schema_witness:
  "Parse sample_decode ''[]'' [] = Inl (FailedToParseUISchema (InvalidJSON UnmarshalTypeError)) \<and>
   Parse sample_decode ''true'' [] = Inl (FailedToParseUISchema (InvalidJSON UnmarshalTypeError)) \<and>
   Parse sample_decode ''{bad'' [] = Inl (FailedToParseUISchema (InvalidJSON SyntaxError))"
  using non_object_ui_schema [of sample_decode "''[]''" "JArr []" "[]"]
    non_object_ui_schema [of sample_decode "''true''" "JBool True" "[]"]
    non_object_ui_schema [of sample_decode "''{bad''" JNull "[]"]
  by (auto simp: sample_decode_def sample_label_text_def quoted_def)

text \<open>The text \<^verbatim>\<open>null\<close> is valid JSON and its value is no object, yet the failure is
  not an "invalid JSON" one.\<close>

theorem null_ui_schema_counterexample:
  "sample_decode ''null'' = Some JNull \<and>
   Parse sample_decode ''null'' [] = Inl (FailedToParseUISchema ErrMissingTypeField) \<and>
   Parse sample_decode ''null'' [] \<noteq> Inl (FailedToParseUISchema (InvalidJSON UnmarshalTypeError)) \<and>
   Parse sample_decode ''null'' [] \<noteq> Inl (FailedToParseUISchema (InvalidJSON SyntaxError))"
  by (simp add: sample_decode_def sample_label_text_def quoted_def Parse_def
      parseUISchema_def unmarshal_map_def parseUISchemaElement_empty)

section \<open>Properties of the tree walker\<close>

lemma spec_callbacks_append:
  "spec_callbacks v (xs @ ys) s =
     (case spec_callbacks v xs s of
        (Some err, s') \<Rightarrow> (Some err, s')
      | (None, s') \<Rightarrow> spec_callbacks v ys s')"
  by (induction xs arbitrary: s) (auto split: prod.splits option.splits)

lemma Walk_is_preorder:
  "Walk eo v s =
     (case eo of None \<Rightarrow> (None, s) | Some e \<Rightarrow> spec_callbacks v (spec_preorder e) s)"
  and Walk_children_is_preorder:
  "Walk_children es v s = spec_callbacks v (concat (map spec_preorder es)) s"
  by (induction eo v s and es v s rule: Walk_Walk_children.induct)
     (auto simp: spec_callbacks_append split: prod.splits option.splits)

lemma Walk_visit_first:
  "Walk (Some e) v s =
     (case visit v e s of
        (Some err, s') \<Rightarrow> (Some err, s')
      | (None, s') \<Rightarrow> Walk_children (Elements e) v s')"
  by (cases e) (auto split: prod.splits option.splits)

text \<open>
  Claim C7. \<open>Walk\<close> on the \<^verbatim>\<open>nil\<close> element returns no error and calls nothing. On a
  node it makes the callbacks of the nodes of the tree in pre-order, up to the first
  callback that fails, whose error it returns. In particular the node's own callback
  comes first: when it fails, \<open>Walk\<close> returns that error with the state the callback
  left, so no child was visited; when it succeeds, the children are walked from that
  state in their order, and the walk of the children stops at the first child whose
  subtree fails.
\<close>

theorem Walk_preorder:
  "Walk None v s = (None, s) \<and>
   Walk (Some e) v s = spec_callbacks v (spec_preorder e) s \<and>
   (\<forall>err s'. visit v e s = (Some err, s') \<longrightarrow> Walk (Some e) v s = (Some err, s')) \<and>
   (\<forall>s'. visit v e s = (None, s') \<longrightarrow>
      Walk (Some e) v s = Walk_children (Elements e) v s') \<and>
   Walk_children [] v s = (None, s) \<and>
   (\<forall>child rest err s'. Walk (Some child) v s = (Some err, s') \<longrightarrow>
      Walk_children (child # rest) v s = (Some err, s')) \<and>
   (\<forall>child rest s'. Walk (Some child) v s = (None, s') \<longrightarrow>
      Walk_children (child # rest) v s = Walk_children rest v s')"
proof (intro conjI allI impI)
  show "Walk None v s = (None, s)"
    by simp
  show "Walk (Some e) v s = spec_callbacks v (spec_preorder e) s"
    by (simp add: Walk_is_preorder)
  show "Walk (Some e) v s = (Some err, s')" if "visit v e s = (Some err, s')" for err s'
    using that by (simp add: Walk_visit_first)
  show "Walk (Some e) v s = Walk_children (Elements e) v s'" if "visit v e s = (None, s')" for s'
    using that by (simp add: Walk_visit_first)
  show "Walk_children [] v s = (None, s)"
    by simp
  show "Walk_children (child # rest) v s = (Some err, s')"
    if "Walk (Some child) v s = (Some err, s')" for child rest err s'
    using that by simp
  show "Walk_children (child # rest) v s = Walk_children rest v s'"
    if "Walk (Some child) v s = (None, s')" for child rest s'
    using that by simp
qed

theorem Walk_preorder_witness:
  "Walk None sample_visitor [] = (None, []) \<and>
   Walk (Some (VerticalLayout (sample_base ''VerticalLayout'')
                 [Control (sample_base ''Control'') ''#/a'' JNull,
                  Category (sample_base ''Category'') ''c'' [Label (sample_base ''Label'') ''t''],
                  Group (sample_base ''Group'') ''g'' [Label (sample_base ''Label'') ''u''],
                  Control (sample_base ''Control'') ''#/b'' JNull]))
     sample_visitor [] =
   (Some ''stop'', [''VerticalLayout'', ''Control'', ''Category'', ''Label'', ''Group''])"
  using Walk_preorder [of sample_visitor "[]"
      "VerticalLayout (sample_base ''VerticalLayout'')
                 [Control (sample_base ''Control'') ''#/a'' JNull,
                  Category (sample_base ''Category'') ''c'' [Label (sample_base ''Label'') ''t''],
                  Group (sample_base ''Group'') ''g'' [Label (sample_base ''Label'') ''u''],
                  Control (sample_base ''Control'') ''#/b'' JNull]"]
  by (simp add: sample_visitor_def record_call_def sample_base_def GetType_def)

end
